theory Spec2Isabelle
  imports Complex_Main
begin

section \<open>JavaScript numbers\<close>

text \<open>
  The calculators of \<^verbatim>\<open>CalculatorService\<close> compute on JavaScript numbers. The model
  keeps the special values of the number type, which decide what an unguarded
  division does, and idealises the finite values: a finite number is a real, and
  arithmetic on finite numbers is exact (no binary rounding, no overflow, and a zero
  has no sign: a zero divisor counts as \<open>+0\<close>).
\<close>

datatype jsnum = Fin real | PInf | NInf | NaN

instantiation jsnum :: "{plus, minus, times, uminus, inverse}"
begin

fun plus_jsnum :: "jsnum \<Rightarrow> jsnum \<Rightarrow> jsnum" where
  "Fin a + Fin b = Fin (a + b)"
| "NaN + _ = NaN"
| "_ + NaN = NaN"
| "PInf + NInf = NaN"
| "NInf + PInf = NaN"
| "PInf + _ = PInf"
| "_ + PInf = PInf"
| "NInf + _ = NInf"
| "_ + NInf = NInf"

fun uminus_jsnum :: "jsnum \<Rightarrow> jsnum" where
  "- Fin a = Fin (- a)"
| "- PInf = NInf"
| "- NInf = PInf"
| "- NaN = NaN"

fun minus_jsnum :: "jsnum \<Rightarrow> jsnum \<Rightarrow> jsnum" where
  "Fin a - Fin b = Fin (a - b)"
| "NaN - _ = NaN"
| "_ - NaN = NaN"
| "PInf - PInf = NaN"
| "NInf - NInf = NaN"
| "PInf - _ = PInf"
| "_ - NInf = PInf"
| "NInf - _ = NInf"
| "_ - PInf = NInf"

fun times_jsnum :: "jsnum \<Rightarrow> jsnum \<Rightarrow> jsnum" where
  "Fin a * Fin b = Fin (a * b)"
| "NaN * _ = NaN"
| "_ * NaN = NaN"
| "PInf * Fin b = (if 0 < b then PInf else if b < 0 then NInf else NaN)"
| "NInf * Fin b = (if 0 < b then NInf else if b < 0 then PInf else NaN)"
| "Fin a * PInf = (if 0 < a then PInf else if a < 0 then NInf else NaN)"
| "Fin a * NInf = (if 0 < a then NInf else if a < 0 then PInf else NaN)"
| "PInf * PInf = PInf"
| "PInf * NInf = NInf"
| "NInf * PInf = NInf"
| "NInf * NInf = PInf"

fun divide_jsnum :: "jsnum \<Rightarrow> jsnum \<Rightarrow> jsnum" where
  "Fin a div Fin b =
     (if b \<noteq> 0 then Fin (a / b)
      else if 0 < a then PInf else if a < 0 then NInf else NaN)"
| "NaN div _ = NaN"
| "_ div NaN = NaN"
| "Fin a div PInf = Fin 0"
| "Fin a div NInf = Fin 0"
| "PInf div Fin b = (if 0 \<le> b then PInf else NInf)"
| "NInf div Fin b = (if 0 \<le> b then NInf else PInf)"
| "PInf div PInf = NaN"
| "PInf div NInf = NaN"
| "NInf div PInf = NaN"
| "NInf div NInf = NaN"

definition inverse_jsnum :: "jsnum \<Rightarrow> jsnum" where
  "inverse_jsnum x = Fin 1 div x"

instance ..

end

text \<open>The comparisons: every comparison with \<open>NaN\<close> is false.\<close>

fun js_lt :: "jsnum \<Rightarrow> jsnum \<Rightarrow> bool" where
  "js_lt (Fin a) (Fin b) = (a < b)"
| "js_lt NaN _ = False"
| "js_lt _ NaN = False"
| "js_lt _ NInf = False"
| "js_lt PInf _ = False"
| "js_lt NInf _ = True"
| "js_lt _ PInf = True"

fun js_le :: "jsnum \<Rightarrow> jsnum \<Rightarrow> bool" where
  "js_le (Fin a) (Fin b) = (a \<le> b)"
| "js_le NaN _ = False"
| "js_le _ NaN = False"
| "js_le NInf _ = True"
| "js_le _ PInf = True"
| "js_le PInf _ = False"
| "js_le _ NInf = False"

definition js_gt :: "jsnum \<Rightarrow> jsnum \<Rightarrow> bool" where
  "js_gt x y = js_lt y x"

definition js_ge :: "jsnum \<Rightarrow> jsnum \<Rightarrow> bool" where
  "js_ge x y = js_le y x"

text \<open>The functions of \<^verbatim>\<open>Math\<close> the calculators call.\<close>

fun Math_abs :: "jsnum \<Rightarrow> jsnum" where
  "Math_abs (Fin a) = Fin \<bar>a\<bar>"
| "Math_abs PInf = PInf"
| "Math_abs NInf = PInf"
| "Math_abs NaN = NaN"





text \<open>
  \<^verbatim>\<open>Math.pow\<close> is only ever called on finite arguments (a base \<open>1 + rate\<close> and an
  exponent computed from the inputs), so the model takes two reals. A negative base
  has a power only for a whole exponent.
\<close>

definition Math_pow :: "real \<Rightarrow> real \<Rightarrow> jsnum" where
  "Math_pow a b =
     (if 0 < a then Fin (a powr b)
      else if a = 0 then (if 0 < b then Fin 0 else if b = 0 then Fin 1 else PInf)
      else if b = of_int \<lfloor>b\<rfloor>
        then Fin ((if even \<lfloor>b\<rfloor> then 1 else - 1) * (\<bar>a\<bar> powr b))
        else NaN)"

text \<open>
  \<^verbatim>\<open>parseFloat(x.toFixed(2))\<close>: the number with two decimals nearest to \<open>x\<close>, the
  larger in magnitude when two are as near. From \<open>10^21\<close> on, \<^verbatim>\<open>toFixed\<close> prints the
  number as \<^verbatim>\<open>toString\<close> does, and \<^verbatim>\<open>parseFloat\<close> reads the same number back; the
  special values print and parse as themselves.
\<close>

definition round2 :: "real \<Rightarrow> real" where
  "round2 x =
     (if 10 ^ 21 \<le> \<bar>x\<bar> then x
      else if x < 0 then - (of_int \<lfloor>- x * 100 + 1 / 2\<rfloor> / 100)
      else of_int \<lfloor>x * 100 + 1 / 2\<rfloor> / 100)"

fun toFixed2 :: "jsnum \<Rightarrow> jsnum" where
  "toFixed2 (Fin a) = Fin (round2 a)"
| "toFixed2 x = x"

text \<open>\<^verbatim>\<open>parseFloat(x.toFixed(4))\<close>, in the same way.\<close>

definition round4 :: "real \<Rightarrow> real" where
  "round4 x =
     (if 10 ^ 21 \<le> \<bar>x\<bar> then x
      else if x < 0 then - (of_int \<lfloor>- x * 10000 + 1 / 2\<rfloor> / 10000)
      else of_int \<lfloor>x * 10000 + 1 / 2\<rfloor> / 10000)"

fun toFixed4 :: "jsnum \<Rightarrow> jsnum" where
  "toFixed4 (Fin a) = Fin (round4 a)"
| "toFixed4 x = x"



section \<open>The calculators\<close>

text \<open>
  Each calculator takes the fields of its validated input (finite numbers, so reals;
  a field the validator restricts to whole positive numbers is a \<open>nat\<close>) and returns the
  numeric fields of its result, the \<^verbatim>\<open>breakdown\<close> object flattened into the record.
  The \<^verbatim>\<open>message\<close> string and the echo of the inputs are left out. A local constant
  of the source is a definition of its own, so that a property of a value before it is
  rounded can be stated.
\<close>

subsection \<open>\<^verbatim>\<open>calculateBondPrice\<close>\<close>






subsection \<open>\<^verbatim>\<open>calculateBreakEven\<close>\<close>






subsection \<open>\<^verbatim>\<open>calculateCD\<close>\<close>

datatype compoundingFrequency = daily | monthly | quarterly | semiannually | annually

fun frequencyMap :: "compoundingFrequency \<Rightarrow> real" where
  "frequencyMap daily = 365"
| "frequencyMap monthly = 12"
| "frequencyMap quarterly = 4"
| "frequencyMap semiannually = 2"
| "frequencyMap annually = 1"

definition CD_futureValue :: "real \<Rightarrow> real \<Rightarrow> real \<Rightarrow> compoundingFrequency \<Rightarrow> jsnum" where
  "CD_futureValue principal' annualInterestRate timePeriod compoundingFrequency =
     (let r = annualInterestRate / 100;
          n = frequencyMap compoundingFrequency
      in Fin principal' * Math_pow (1 + r / n) (n * timePeriod))"

record CD_result =
  cd_futureValue :: jsnum
  cd_principalAmount :: jsnum
  cd_totalInterestEarned :: jsnum
  cd_effectiveRate :: jsnum
  cd_compoundingPeriodsPerYear :: real
  cd_totalCompoundingPeriods :: real

definition calculateCD :: "real \<Rightarrow> real \<Rightarrow> real \<Rightarrow> compoundingFrequency \<Rightarrow> CD_result" where
  "calculateCD principal' annualInterestRate timePeriod compoundingFrequency =
     (let r = annualInterestRate / 100;
          n = frequencyMap compoundingFrequency;
          futureValue = CD_futureValue principal' annualInterestRate timePeriod compoundingFrequency;
          totalInterest = futureValue - Fin principal'
      in \<lparr> cd_futureValue = toFixed2 futureValue,
           cd_principalAmount = toFixed2 (Fin principal'),
           cd_totalInterestEarned = toFixed2 totalInterest,
           cd_effectiveRate = toFixed2 ((Math_pow (1 + r / n) n - Fin 1) * Fin 100),
           cd_compoundingPeriodsPerYear = n,
           cd_totalCompoundingPeriods = n * timePeriod \<rparr>)"

subsection \<open>\<^verbatim>\<open>calculateCreditPayoff\<close>\<close>




subsection \<open>\<^verbatim>\<open>calculateMortgage\<close>\<close>

text \<open>The unit of a loan term: \<^verbatim>\<open>paymentType\<close> here, \<^verbatim>\<open>loanTermType\<close> in the amortization.\<close>

datatype termType = years | months

definition Mortgage_totalPayments :: "real \<Rightarrow> termType \<Rightarrow> real" where
  "Mortgage_totalPayments loanTerm paymentType =
     (if paymentType = years then loanTerm * 12 else loanTerm)"

text \<open>The annuity formula of the \<^verbatim>\<open>else\<close> branch.\<close>

definition Mortgage_annuity :: "real \<Rightarrow> real \<Rightarrow> real \<Rightarrow> jsnum" where
  "Mortgage_annuity loanAmount monthlyInterestRate totalPayments =
     Fin loanAmount * (Fin monthlyInterestRate * Math_pow (1 + monthlyInterestRate) totalPayments)
       / (Math_pow (1 + monthlyInterestRate) totalPayments - Fin 1)"

definition Mortgage_monthlyPayment :: "real \<Rightarrow> real \<Rightarrow> real \<Rightarrow> termType \<Rightarrow> jsnum" where
  "Mortgage_monthlyPayment loanAmount interestRate loanTerm paymentType =
     (let totalPayments = Mortgage_totalPayments loanTerm paymentType;
          monthlyInterestRate = (interestRate / 100) / 12
      in if monthlyInterestRate = 0
         then Fin loanAmount / Fin totalPayments
         else Mortgage_annuity loanAmount monthlyInterestRate totalPayments)"

record Mortgage_result =
  mg_monthlyPayment :: jsnum
  mg_loanAmount :: jsnum
  mg_totalPayments :: real
  mg_totalAmountPaid :: jsnum
  mg_totalInterest :: jsnum
  mg_monthlyInterestRate :: jsnum

definition calculateMortgage :: "real \<Rightarrow> real \<Rightarrow> real \<Rightarrow> termType \<Rightarrow> Mortgage_result" where
  "calculateMortgage loanAmount interestRate loanTerm paymentType =
     (let totalPayments = Mortgage_totalPayments loanTerm paymentType;
          monthlyInterestRate = (interestRate / 100) / 12;
          monthlyPayment = Mortgage_monthlyPayment loanAmount interestRate loanTerm paymentType;
          totalAmountPaid = monthlyPayment * Fin totalPayments;
          totalInterest = totalAmountPaid - Fin loanAmount
      in \<lparr> mg_monthlyPayment = toFixed2 monthlyPayment,
           mg_loanAmount = toFixed2 (Fin loanAmount),
           mg_totalPayments = totalPayments,
           mg_totalAmountPaid = toFixed2 totalAmountPaid,
           mg_totalInterest = toFixed2 totalInterest,
           mg_monthlyInterestRate = toFixed4 (Fin (monthlyInterestRate * 100)) \<rparr>)"

subsection \<open>\<^verbatim>\<open>calculateRSI\<close> and the trend of \<^verbatim>\<open>analyzeStock\<close>\<close>

text \<open>
  The loop of \<^verbatim>\<open>calculateRSI\<close> over \<open>i = 1, \<dots>, prices.length - 1\<close>: a positive change
  is pushed to \<^verbatim>\<open>gains\<close>, any other change to \<^verbatim>\<open>losses\<close>, as its absolute value.
\<close>

definition RSI_gains_losses :: "jsnum list \<Rightarrow> jsnum list \<times> jsnum list" where
  "RSI_gains_losses prices =
     fold (\<lambda>i (gains, losses).
             let change = prices ! i - prices ! (i - 1)
             in if js_gt change (Fin 0) then (gains @ [change], losses)
                else (gains, losses @ [Math_abs change]))
       [1..<length prices] ([], [])"

definition RSI_avgGain :: "jsnum list \<Rightarrow> jsnum" where
  "RSI_avgGain prices = foldl (\<lambda>a b. a + b) (Fin 0) (fst (RSI_gains_losses prices)) / Fin 14"

definition RSI_avgLoss :: "jsnum list \<Rightarrow> jsnum" where
  "RSI_avgLoss prices = foldl (\<lambda>a b. a + b) (Fin 0) (snd (RSI_gains_losses prices)) / Fin 14"

definition calculateRSI :: "jsnum list \<Rightarrow> jsnum" where
  "calculateRSI prices =
     (let avgGain = RSI_avgGain prices;
          avgLoss = RSI_avgLoss prices;
          rs = avgGain / avgLoss
      in Fin 100 - (Fin 100 / (Fin 1 + rs)))"

text \<open>
  What \<^verbatim>\<open>analyzeStock\<close> does with the weekly closing prices it has fetched:
  \<^verbatim>\<open>calculateRSI(weeklyPrices.slice(0, 14))\<close>, then the trend label.
\<close>

definition analyzeStock_rsi :: "jsnum list \<Rightarrow> jsnum" where
  "analyzeStock_rsi weeklyPrices = calculateRSI (take 14 weeklyPrices)"

definition analyzeStock_trend :: "jsnum list \<Rightarrow> string" where
  "analyzeStock_trend weeklyPrices =
     (let rsi = analyzeStock_rsi weeklyPrices
      in if js_le rsi (Fin 30) then ''Bearish''
         else if js_ge rsi (Fin 70) then ''Bullish''
         else if js_lt rsi (Fin 50) then ''Downtrend''
         else ''Uptrend'')"

subsection \<open>\<^verbatim>\<open>calculateLoanAmortization\<close>\<close>
















subsection \<open>\<^verbatim>\<open>optimizePortfolio\<close>: returns, covariance, and the search\<close>
















section \<open>Properties\<close>

subsection \<open>Rounding to two decimals\<close>




lemma half_floor_mono:
  "a \<le> b \<Longrightarrow> of_int \<lfloor>a * 100 + 1 / 2\<rfloor> / 100 \<le> (of_int \<lfloor>b * 100 + 1 / 2\<rfloor> / 100 :: real)" for a b :: real
proof -
  assume "a \<le> b"
  then have "\<lfloor>a * 100 + 1 / 2\<rfloor> \<le> \<lfloor>b * 100 + 1 / 2\<rfloor>" by (intro floor_mono) simp
  then have "(of_int \<lfloor>a * 100 + 1 / 2\<rfloor> :: real) \<le> of_int \<lfloor>b * 100 + 1 / 2\<rfloor>" by (simp only: of_int_le_iff)
  then show ?thesis by (rule divide_right_mono) simp
qed

lemma half_floor_nonneg: "0 \<le> a \<Longrightarrow> 0 \<le> of_int \<lfloor>a * 100 + 1 / 2\<rfloor> / (100 :: real)" for a :: real
  using half_floor_mono [of 0 a] by simp

lemma half_floor_bound:
  "z < 10 ^ 21 \<Longrightarrow> of_int \<lfloor>z * 100 + 1 / 2\<rfloor> / 100 \<le> (10 ^ 21 :: real)" for z :: real
proof -
  assume z: "z < 10 ^ 21"
  have Nint: "(10 ^ 21 :: real) * 100 = of_int (10 ^ 23)" by simp
  have "z * 100 + 1 / 2 < of_int (10 ^ 23) + 1" using z Nint by linarith
  then have "z * 100 + 1 / 2 < of_int (10 ^ 23 + 1)" by (simp only: of_int_add of_int_1)
  then have "\<lfloor>z * 100 + 1 / 2\<rfloor> < 10 ^ 23 + 1" by (simp only: floor_less_iff)
  then have "\<lfloor>z * 100 + 1 / 2\<rfloor> \<le> 10 ^ 23" by linarith
  then have "(of_int \<lfloor>z * 100 + 1 / 2\<rfloor> :: real) \<le> of_int (10 ^ 23)" by (simp only: of_int_le_iff)
  then have "(of_int \<lfloor>z * 100 + 1 / 2\<rfloor> :: real) / 100 \<le> of_int (10 ^ 23) / 100" by (rule divide_right_mono) simp
  then show ?thesis by simp
qed

lemma round2_mono: "x \<le> y \<Longrightarrow> round2 x \<le> round2 y"
proof -
  assume xy: "x \<le> y"
  define N :: real where "N = 10 ^ 21"
  have Npos: "0 < N" by (simp add: N_def)
  have big: "round2 z = z" if "N \<le> \<bar>z\<bar>" for z
    using that by (simp add: round2_def N_def)
  have neg: "round2 z = - (of_int \<lfloor>(- z) * 100 + 1 / 2\<rfloor> / 100)" if "\<bar>z\<bar> < N" "z < 0" for z
    using that by (simp add: round2_def N_def)
  have pos: "round2 z = of_int \<lfloor>z * 100 + 1 / 2\<rfloor> / 100" if "\<bar>z\<bar> < N" "\<not> z < 0" for z
    using that by (simp add: round2_def N_def)
  have le_N: "round2 z \<le> N" if "\<bar>z\<bar> < N" for z
  proof (cases "z < 0")
    case True
    then show ?thesis using neg [OF that True] half_floor_nonneg [of "- z"] Npos by linarith
  next
    case False
    have "z < 10 ^ 21" using that unfolding N_def by linarith
    then show ?thesis using pos [OF that False] half_floor_bound [of z] unfolding N_def by linarith
  qed
  have ge_N: "- N \<le> round2 z" if "\<bar>z\<bar> < N" for z
  proof (cases "z < 0")
    case True
    have "- z < 10 ^ 21" using that unfolding N_def by linarith
    then show ?thesis using neg [OF that True] half_floor_bound [of "- z"] unfolding N_def by linarith
  next
    case False
    then show ?thesis using pos [OF that False] half_floor_nonneg [of z] Npos by linarith
  qed
  consider (bb) "N \<le> \<bar>x\<bar>" "N \<le> \<bar>y\<bar>" | (sb) "\<bar>x\<bar> < N" "N \<le> \<bar>y\<bar>"
    | (bs) "N \<le> \<bar>x\<bar>" "\<bar>y\<bar> < N" | (ss) "\<bar>x\<bar> < N" "\<bar>y\<bar> < N"
    by linarith
  then show ?thesis
  proof cases
    case bb
    then show ?thesis using xy big by simp
  next
    case sb
    then have "N \<le> y" using xy by linarith
    then show ?thesis using le_N [OF sb(1)] big [OF sb(2)] by linarith
  next
    case bs
    then have "x \<le> - N" using xy by linarith
    then show ?thesis using ge_N [OF bs(2)] big [OF bs(1)] by linarith
  next
    case ss
    show ?thesis
    proof (cases "x < 0")
      case xneg: True
      show ?thesis
      proof (cases "y < 0")
        case True
        have "- y \<le> - x" using xy by simp
        then show ?thesis
          using neg [OF ss(1) xneg] neg [OF ss(2) True] half_floor_mono [of "- y" "- x"] by linarith
      next
        case False
        then show ?thesis
          using xneg neg [OF ss(1) xneg] pos [OF ss(2) False]
            half_floor_nonneg [of "- x"] half_floor_nonneg [of y]
          by linarith
      qed
    next
      case False
      then have "\<not> y < 0" using xy by linarith
      then show ?thesis using pos [OF ss(1) False] pos [OF ss(2)] half_floor_mono [OF xy] by linarith
    qed
  qed
qed

lemma toFixed2_mono: "a \<le> b \<Longrightarrow> js_le (toFixed2 (Fin a)) (toFixed2 (Fin b))"
  by (simp add: round2_mono)

subsection \<open>Break-even\<close>



subsection \<open>Bond price\<close>






subsection \<open>Mortgage\<close>

text \<open>
  Claim C10. With \<open>interestRate = 0\<close> the monthly rate is 0, the guard takes the first
  branch, and the monthly payment is \<open>loanAmount / totalPayments\<close>, where \<open>totalPayments\<close>
  is \<open>loanTerm * 12\<close> for a term in years and \<open>loanTerm\<close> otherwise; for a positive term
  this is a finite number, which the result reports rounded. The annuity formula of the
  other branch would be \<open>0 / 0\<close> there, that is \<open>NaN\<close>, and for any other rate the
  function does take that formula.
\<close>

theorem calculateMortgage_zero_rate:
  "Mortgage_monthlyPayment loanAmount 0 loanTerm paymentType
     = Fin loanAmount / Fin (if paymentType = years then loanTerm * 12 else loanTerm)
   \<and> (0 < loanTerm \<longrightarrow>
        Mortgage_monthlyPayment loanAmount 0 loanTerm paymentType
          = Fin (loanAmount / (if paymentType = years then loanTerm * 12 else loanTerm))
        \<and> mg_monthlyPayment (calculateMortgage loanAmount 0 loanTerm paymentType)
          = Fin (round2 (loanAmount / (if paymentType = years then loanTerm * 12 else loanTerm))))
   \<and> Mortgage_annuity loanAmount 0 (Mortgage_totalPayments loanTerm paymentType) = NaN
   \<and> (interestRate \<noteq> 0 \<longrightarrow>
        Mortgage_monthlyPayment loanAmount interestRate loanTerm paymentType
          = Mortgage_annuity loanAmount ((interestRate / 100) / 12)
              (Mortgage_totalPayments loanTerm paymentType))"
  by (simp add: Mortgage_monthlyPayment_def Mortgage_totalPayments_def Mortgage_annuity_def
      calculateMortgage_def Math_pow_def Let_def)

theorem calculateMortgage_zero_rate_witness:
  "0 < (30 :: real)
   \<and> Mortgage_monthlyPayment 300000 0 30 years = Fin (2500 / 3)
   \<and> mg_monthlyPayment (calculateMortgage 300000 0 30 years) = Fin (83333 / 100)
   \<and> Mortgage_monthlyPayment 300000 0 360 months = Fin (2500 / 3)
   \<and> (6 :: real) \<noteq> 0
   \<and> Mortgage_monthlyPayment 300000 6 30 years = Mortgage_annuity 300000 (1 / 200) 360"
proof -
  have r: "round2 (2500 / 3) = 83333 / 100"
  proof -
    have "\<lfloor>(250000 / 3 + 1 / 2 :: real)\<rfloor> = 83333" by (rule floor_unique) simp_all
    then show ?thesis by (simp add: round2_def)
  qed
  show ?thesis
    using calculateMortgage_zero_rate [of 300000 30 years 6]
      calculateMortgage_zero_rate [of 300000 360 months 6] r
    by (simp add: Mortgage_totalPayments_def)
qed

subsection \<open>Certificate of deposit\<close>




subsection \<open>Credit-card payoff\<close>



subsection \<open>Relative strength index\<close>

lemma foldl_plus_Fin: "foldl (\<lambda>a b. a + b) (Fin a) (map Fin xs) = Fin (a + sum_list xs)"
  by (induction xs arbitrary: a) (simp_all add: add.assoc)

text \<open>
  On finite prices the loop collects finite numbers: the gains sum to the positive parts
  of the changes and the losses to their negative parts.
\<close>

lemma RSI_loop_Fin:
  assumes "k \<le> length ps"
  shows "\<exists>gs ls.
    fold (\<lambda>i (gains, losses).
             let change = map Fin ps ! i - map Fin ps ! (i - 1)
             in if js_gt change (Fin 0) then (gains @ [change], losses)
                else (gains, losses @ [Math_abs change]))
       [1..<k] ([], []) = (map Fin gs, map Fin ls)
    \<and> sum_list gs = (\<Sum>i = 1..<k. max 0 (ps ! i - ps ! (i - 1)))
    \<and> sum_list ls = (\<Sum>i = 1..<k. max 0 (ps ! (i - 1) - ps ! i))"
  using assms
proof (induction k)
  case 0
  show ?case by simp
next
  case (Suc k)
  show ?case
  proof (cases "k = 0")
    case True
    then show ?thesis by simp
  next
    case False
    then have up: "[1..<Suc k] = [1..<k] @ [k]" by simp
    have k: "k < length ps" "k - 1 < length ps" using Suc.prems by simp_all
    obtain gs ls where ih:
      "fold (\<lambda>i (gains, losses).
             let change = map Fin ps ! i - map Fin ps ! (i - 1)
             in if js_gt change (Fin 0) then (gains @ [change], losses)
                else (gains, losses @ [Math_abs change]))
         [1..<k] ([], []) = (map Fin gs, map Fin ls)"
      "sum_list gs = (\<Sum>i = 1..<k. max 0 (ps ! i - ps ! (i - 1)))"
      "sum_list ls = (\<Sum>i = 1..<k. max 0 (ps ! (i - 1) - ps ! i))"
      using Suc.IH Suc.prems by auto
    have s: "{1..<Suc k} = insert k {1..<k}" using False by auto
    show ?thesis
    proof (cases "0 < ps ! k - ps ! (k - 1)")
      case True
      show ?thesis
        apply (rule exI [of _ "gs @ [ps ! k - ps ! (k - 1)]"])
        apply (rule exI [of _ ls])
        using True False k ih s by (simp add: up js_gt_def max_def)
    next
      case neg: False
      show ?thesis
        apply (rule exI [of _ gs])
        apply (rule exI [of _ "ls @ [\<bar>ps ! k - ps ! (k - 1)\<bar>]"])
        using neg False k ih s by (simp add: up js_gt_def max_def)
    qed
  qed
qed

lemma calculateRSI_closed:
  fixes ps :: "real list"
  defines "G \<equiv> (\<Sum>i = 1..<length ps. max 0 (ps ! i - ps ! (i - 1))) / 14"
    and "L \<equiv> (\<Sum>i = 1..<length ps. max 0 (ps ! (i - 1) - ps ! i)) / 14"
  shows "RSI_avgGain (map Fin ps) = Fin G" and "RSI_avgLoss (map Fin ps) = Fin L"
    and "0 \<le> G" and "0 \<le> L"
    and "calculateRSI (map Fin ps)
      = (if L = 0 then (if G = 0 then NaN else Fin 100) else Fin (100 - 100 / (1 + G / L)))"
proof -
  obtain gs ls where gl: "RSI_gains_losses (map Fin ps) = (map Fin gs, map Fin ls)"
    "sum_list gs = (\<Sum>i = 1..<length ps. max 0 (ps ! i - ps ! (i - 1)))"
    "sum_list ls = (\<Sum>i = 1..<length ps. max 0 (ps ! (i - 1) - ps ! i))"
    using RSI_loop_Fin [of "length ps" ps] unfolding RSI_gains_losses_def by auto
  show g: "RSI_avgGain (map Fin ps) = Fin G"
    by (simp add: RSI_avgGain_def gl foldl_plus_Fin G_def)
  show l: "RSI_avgLoss (map Fin ps) = Fin L"
    by (simp add: RSI_avgLoss_def gl foldl_plus_Fin L_def)
  show G0: "0 \<le> G" unfolding G_def by (intro divide_nonneg_pos sum_nonneg) simp_all
  show L0: "0 \<le> L" unfolding L_def by (intro divide_nonneg_pos sum_nonneg) simp_all
  show "calculateRSI (map Fin ps)
      = (if L = 0 then (if G = 0 then NaN else Fin 100) else Fin (100 - 100 / (1 + G / L)))"
  proof (cases "L = 0")
    case True
    then show ?thesis using G0 by (simp add: calculateRSI_def g l Let_def)
  next
    case False
    then have "0 < L" using L0 by simp
    then have "0 \<le> G / L" using G0 by simp
    then have "1 + G / L \<noteq> 0" by linarith
    then show ?thesis using False by (simp add: calculateRSI_def g l Let_def)
  qed
qed

text \<open>
  Claim C9. \<^verbatim>\<open>calculateRSI\<close> does not guard its division. On a window of finite
  prices in which no price differs from the one before (a constant series, and also a
  window of fewer than two prices), the average gain and the average loss are both 0 and
  the result is \<open>NaN\<close>. On a window in which no price is below the one before and some
  price is above it, the average loss is 0, the quotient \<open>avgGain / avgLoss\<close> is
  \<open>+Infinity\<close>, and the result is 100.
\<close>

theorem calculateRSI_division_unguarded:
  "((\<forall>i. Suc i < length ps \<longrightarrow> ps ! Suc i = ps ! i) \<longrightarrow>
      RSI_avgGain (map Fin ps) = Fin 0 \<and> RSI_avgLoss (map Fin ps) = Fin 0
      \<and> calculateRSI (map Fin ps) = NaN)
   \<and> ((\<forall>i. Suc i < length ps \<longrightarrow> ps ! i \<le> ps ! Suc i) \<longrightarrow>
       (\<exists>i. Suc i < length ps \<and> ps ! i < ps ! Suc i) \<longrightarrow>
      RSI_avgLoss (map Fin ps) = Fin 0
      \<and> RSI_avgGain (map Fin ps) / RSI_avgLoss (map Fin ps) = PInf
      \<and> calculateRSI (map Fin ps) = Fin 100)"
proof (intro conjI impI)
  define G where "G = (\<Sum>i = 1..<length ps. max 0 (ps ! i - ps ! (i - 1))) / 14"
  define L where "L = (\<Sum>i = 1..<length ps. max 0 (ps ! (i - 1) - ps ! i)) / 14"
  note c = calculateRSI_closed [of ps, folded G_def L_def]
  {
    assume const: "\<forall>i. Suc i < length ps \<longrightarrow> ps ! Suc i = ps ! i"
    have d: "ps ! i = ps ! (i - 1)" if "i \<in> {1..<length ps}" for i
      using const [rule_format, of "i - 1"] that by simp
    have "G = 0" unfolding G_def using d by simp
    moreover have "L = 0" unfolding L_def using d by simp
    ultimately show "RSI_avgGain (map Fin ps) = Fin 0" "RSI_avgLoss (map Fin ps) = Fin 0"
      "calculateRSI (map Fin ps) = NaN"
      using c by simp_all
  }
  {
    assume up: "\<forall>i. Suc i < length ps \<longrightarrow> ps ! i \<le> ps ! Suc i"
      and some: "\<exists>i. Suc i < length ps \<and> ps ! i < ps ! Suc i"
    have d: "ps ! (i - 1) \<le> ps ! i" if "i \<in> {1..<length ps}" for i
      using up [rule_format, of "i - 1"] that by simp
    have "(\<Sum>i = 1..<length ps. max 0 (ps ! (i - 1) - ps ! i)) = 0"
    proof (rule sum.neutral, rule ballI)
      fix i assume "i \<in> {1..<length ps}"
      from d [OF this] show "max 0 (ps ! (i - 1) - ps ! i) = 0" by simp
    qed
    then have L: "L = 0" unfolding L_def by simp
    obtain j where j: "Suc j < length ps" "ps ! j < ps ! Suc j" using some by blast
    have "0 < (\<Sum>i = 1..<length ps. max 0 (ps ! i - ps ! (i - 1)))"
    proof (rule sum_pos2 [of _ "Suc j"])
      show "Suc j \<in> {1..<length ps}" using j by simp
      show "0 < max 0 (ps ! Suc j - ps ! (Suc j - 1))" using j by simp
    qed simp_all
    then have G: "0 < G" unfolding G_def by simp
    show "RSI_avgLoss (map Fin ps) = Fin 0"
      "RSI_avgGain (map Fin ps) / RSI_avgLoss (map Fin ps) = PInf"
      "calculateRSI (map Fin ps) = Fin 100"
      using c L G by simp_all
  }
qed

text \<open>A constant window, and a rising window.\<close>

theorem calculateRSI_division_unguarded_witness:
  "calculateRSI (map Fin [5, 5, 5]) = NaN \<and> calculateRSI (map Fin [1, 2, 3]) = Fin 100"
proof -
  have a: "\<forall>i. Suc i < length [5, 5, 5 :: real] \<longrightarrow> [5, 5, 5 :: real] ! Suc i = [5, 5, 5] ! i"
    by (simp add: nth_Cons' less_Suc_eq)
  have b: "\<forall>i. Suc i < length [1, 2, 3 :: real] \<longrightarrow> [1, 2, 3 :: real] ! i \<le> [1, 2, 3] ! Suc i"
    by (simp add: nth_Cons' less_Suc_eq)
  have c: "\<exists>i. Suc i < length [1, 2, 3 :: real] \<and> [1, 2, 3 :: real] ! i < [1, 2, 3] ! Suc i"
    by (rule exI [of _ 0]) simp
  show ?thesis
    using calculateRSI_division_unguarded [of "[5, 5, 5]"] a
      calculateRSI_division_unguarded [of "[1, 2, 3]"] b c
    by blast
qed

subsection \<open>The window and the trend of \<^verbatim>\<open>analyzeStock\<close>\<close>

text \<open>
  The labels of a finite index are the four bands of the specification; an index that is
  \<open>NaN\<close> fails every comparison and is labelled ``Uptrend''. Only the first fourteen weekly
  prices reach \<^verbatim>\<open>calculateRSI\<close>.
\<close>

lemma analyzeStock_trend_labels:
  assumes "analyzeStock_rsi weeklyPrices = Fin x"
  shows "analyzeStock_trend weeklyPrices =
    (if x \<le> 30 then ''Bearish'' else if x < 50 then ''Downtrend''
     else if x < 70 then ''Uptrend'' else ''Bullish'')"
  using assms by (simp add: analyzeStock_trend_def js_ge_def)

lemma analyzeStock_trend_NaN:
  assumes "analyzeStock_rsi weeklyPrices = NaN"
  shows "analyzeStock_trend weeklyPrices = ''Uptrend''"
  using assms by (simp add: analyzeStock_trend_def js_ge_def)

lemma analyzeStock_rsi_ignores_15th:
  assumes "length ps = 14"
  shows "analyzeStock_rsi (ps @ qs) = calculateRSI ps"
  using assms by (simp add: analyzeStock_rsi_def)

text \<open>
  Claim C3. The weekly closes 100, 101, \<dots>, 113, 50: the first thirteen changes are gains
  of 1, the fourteenth is a loss of 63. The code takes \<^verbatim>\<open>slice(0, 14)\<close>, fourteen prices
  and so thirteen changes, finds no loss, and reports 100 and ``Bullish''. Over the
  fourteen changes (fifteen prices) the same formula gives \<open>325 / 19\<close>, below 30.
\<close>

theorem analyzeStock_rsi_thirteen_changes:
  "analyzeStock_rsi (map Fin [100, 101, 102, 103, 104, 105, 106, 107, 108, 109, 110, 111, 112, 113, 50]) = Fin 100
   \<and> analyzeStock_trend (map Fin [100, 101, 102, 103, 104, 105, 106, 107, 108, 109, 110, 111, 112, 113, 50]) = ''Bullish''
   \<and> calculateRSI (take 15 (map Fin [100, 101, 102, 103, 104, 105, 106, 107, 108, 109, 110, 111, 112, 113, 50])) = Fin (325 / 19)"
proof -
  have a: "analyzeStock_rsi (map Fin [100, 101, 102, 103, 104, 105, 106, 107, 108, 109, 110, 111, 112, 113, 50]) = Fin 100"
    by (simp add: analyzeStock_rsi_def calculateRSI_def RSI_avgGain_def RSI_avgLoss_def
        RSI_gains_losses_def upt_rec js_gt_def)
  have b: "calculateRSI (take 15 (map Fin [100, 101, 102, 103, 104, 105, 106, 107, 108, 109, 110, 111, 112, 113, 50])) = Fin (325 / 19)"
    by (simp add: calculateRSI_def RSI_avgGain_def RSI_avgLoss_def
        RSI_gains_losses_def upt_rec js_gt_def)
  show ?thesis using a b by (simp add: analyzeStock_trend_def js_ge_def)
qed

subsection \<open>Loan amortization: the period loop\<close>










subsection \<open>Loan amortization: the balance in closed form\<close>















subsection \<open>Portfolio optimization: the enumeration\<close>













subsection \<open>Portfolio optimization: return and volatility of finite data\<close>











lemma sum_list_flat: "sum_list (replicate n z @ [x]) = real n * z + (x :: real)"
  by (simp add: sum_list_replicate)












end
